theory Spec2Isabelle
  imports Main
begin

section \<open>Exceptions\<close>

text \<open>
  The exceptions of \<^verbatim>\<open>odourcollect_utils.py\<close>, one constructor for each \<^verbatim>\<open>raise\<close> of the
  module and for each failure of a library call it makes. The first eight are the error
  kinds the design names; the Python class raised is given beside each.
  \<^item> \<open>UnsupportedFormat\<close>: \<^verbatim>\<open>AssertionError('file_type must be "csv" or "xlsx"')\<close>;
  \<^item> \<open>UnknownFilter txt av\<close>: the \<^verbatim>\<open>ValueError\<close> of the filter provider; \<open>txt\<close> is the
    literal part of its message, \<open>av\<close> the set printed in the placeholder;
  \<^item> \<open>SchemaConflict\<close>: the \<^verbatim>\<open>AssertionError\<close> of \<^verbatim>\<open>add_analyst_fields\<close>;
  \<^item> \<open>MalformedDate\<close>, \<open>MalformedDuration\<close>, \<open>MalformedInteger\<close>: \<^verbatim>\<open>pd.to_datetime\<close>,
    \<^verbatim>\<open>pd.to_timedelta\<close>, \<^verbatim>\<open>astype(int)\<close> refusing a text;
  \<^item> \<open>ConfigNotFound\<close>: \<^verbatim>\<open>FileNotFoundError\<close>; \<open>ConfigMalformed\<close>: the re-raised
    \<^verbatim>\<open>SyntaxError\<close>;
  \<^item> the others are raised by the interpreter or by pandas and are caught nowhere.
\<close>

datatype error =
    UnsupportedFormat
  | UnknownFilter string "string set"
  | SchemaConflict
  | MalformedDate
  | MalformedDuration
  | MalformedInteger
  | ConfigNotFound
  | ConfigMalformed
  | IndexError
  | TypeError
  | AttributeError
  | ValueError
  | OtherError

fun defined_error_kind :: "error \<Rightarrow> bool" where
  "defined_error_kind IndexError = False"
| "defined_error_kind TypeError = False"
| "defined_error_kind AttributeError = False"
| "defined_error_kind ValueError = False"
| "defined_error_kind OtherError = False"
| "defined_error_kind _ = True"

section \<open>Tables\<close>

text \<open>
  A \<^verbatim>\<open>pd.DataFrame\<close>: its row count (the length of its index) and its columns in order,
  each a label and a content. pandas does not keep labels unique (\<^verbatim>\<open>rename\<close> can make two
  columns carry one label), so the columns are an association list. The loader reads with
  \<^verbatim>\<open>dtype=object, na_filter=False\<close>: every cell of a loaded table is a text, and a column
  of a loaded table is a \<open>string list\<close>.
\<close>

record 'c table =
  nrows :: nat
  columns :: "(string \<times> 'c) list"

type_synonym text_table = "string list table"

definition column_names :: "'c table \<Rightarrow> string list" where
  "column_names t = map fst (columns t)"

text \<open>\<^verbatim>\<open>name in ocdata\<close>: is \<open>name\<close> a column label.\<close>

definition has_column :: "'c table \<Rightarrow> string \<Rightarrow> bool" where
  "has_column t name = (name \<in> set (column_names t))"

text \<open>The invariant of the data model: equal row counts, unique labels.\<close>

definition wf_table :: "text_table \<Rightarrow> bool" where
  "wf_table t = (list_all (\<lambda>(n, xs). length xs = nrows t) (columns t) \<and> distinct (column_names t))"

text \<open>\<^verbatim>\<open>ocdata.rename(columns={a: b}, inplace=True)\<close>: every label \<open>a\<close> becomes \<open>b\<close>.\<close>

definition rename :: "string \<Rightarrow> string \<Rightarrow> 'c table \<Rightarrow> 'c table" where
  "rename a b t = t\<lparr>columns := map (\<lambda>(n, c). (if n = a then b else n, c)) (columns t)\<rparr>"

text \<open>
  \<^verbatim>\<open>ocdata[name] = ""\<close>: the scalar fills one cell per row; a column with that label is
  overwritten, otherwise the column is appended.
\<close>

definition setitem_scalar :: "text_table \<Rightarrow> string \<Rightarrow> string \<Rightarrow> text_table" where
  "setitem_scalar t name v =
     (if has_column t name
      then t\<lparr>columns := map (\<lambda>(n, c). (n, if n = name then replicate (nrows t) v else c)) (columns t)\<rparr>
      else t\<lparr>columns := columns t @ [(name, replicate (nrows t) v)]\<rparr>)"

text \<open>
  \<^verbatim>\<open>ocdata.replace({column: {old: new, ...}, ...}, inplace=True)\<close>: in each column whose
  label is a key of the outer dictionary, a cell equal to a key of the inner dictionary
  becomes its value; other cells and other columns stay. A label that is no column is
  skipped.
\<close>

definition replace_values :: "(string \<times> string) list \<Rightarrow> string list \<Rightarrow> string list" where
  "replace_values m xs = map (\<lambda>v. case map_of m v of Some w \<Rightarrow> w | None \<Rightarrow> v) xs"

definition replace :: "(string \<times> (string \<times> string) list) list \<Rightarrow> text_table \<Rightarrow> text_table" where
  "replace d t =
     t\<lparr>columns := map (\<lambda>(n, c). (n, case map_of d n of Some m \<Rightarrow> replace_values m c | None \<Rightarrow> c))
                     (columns t)\<rparr>"

section \<open>The filters on text tables\<close>

definition fix_typos :: "'c table \<Rightarrow> 'c table" where
  "fix_typos ocdata =
     (let ocdata = (if has_column ocdata ''Intentity'' then rename ''Intentity'' ''Intensity'' ocdata else ocdata);
          ocdata = (if has_column ocdata ''day'' then rename ''day'' ''Day'' ocdata else ocdata);
          ocdata = (if has_column ocdata ''time'' then rename ''time'' ''Time'' ocdata else ocdata)
      in ocdata)"

definition fix_userids :: "text_table \<Rightarrow> text_table" where
  "fix_userids ocdata =
     (if \<not> has_column ocdata ''User'' then setitem_scalar ocdata ''User'' '''' else ocdata)"

definition annoy_mapping :: "(string \<times> string) list" where
  "annoy_mapping =
     [(''Extremely unpleasant'', ''-4''),
      (''Very unpleasant'', ''-3''),
      (''Unpleasant'', ''-2''),
      (''Slightly unpleasant'', ''-1''),
      (''Neutral'', ''0''),
      (''Slightly pleasant'', ''1''),
      (''Pleasant'', ''2''),
      (''Very pleasant'', ''3''),
      (''Extremely pleasant'', ''4''),
      ('''', ''0'')]"

definition intensity_mapping :: "(string \<times> string) list" where
  "intensity_mapping =
     [(''Extremely strong'', ''6''),
      (''Very strong'', ''5''),
      (''Strong'', ''4''),
      (''Distinct'', ''3''),
      (''Weak'', ''2''),
      (''Very weak'', ''1''),
      (''Not perceptible'', ''0''),
      ('''', ''0'')]"

definition duration_mapping :: "(string \<times> string) list" where
  "duration_mapping =
     [(''Continuous odor throughout the day'', ''1 day 00:00:00''),
      (''Continuous odor in the last hour'', ''01:00:00''),
      (''Punctual odor'', ''00:05:00''),
      ('''', ''00:00:00'')]"

definition intensity_and_annoy_mapping :: "(string \<times> (string \<times> string) list) list" where
  "intensity_and_annoy_mapping =
     [(''Intensity'', intensity_mapping),
      (''Annoy'', annoy_mapping),
      (''Duration'', duration_mapping)]"

definition bastard_tone_mapping :: "(string \<times> string) list" where
  "bastard_tone_mapping =
     [(''Moderate unpleasant'', ''-3''),
      (''Moderate pleasant'', ''3''),
      (''Extremely pleasan'', ''4'')]"

definition odour_literals_to_numbers :: "text_table \<Rightarrow> text_table" where
  "odour_literals_to_numbers ocdata =
     replace [(''Annoy'', bastard_tone_mapping)] (replace intensity_and_annoy_mapping ocdata)"

text \<open>
  \<^verbatim>\<open>add_analyst_fields\<close> works through its five labels in order and mutates the table as it
  goes: when it raises, the columns it has added so far are in the table. \<open>Inl\<close> carries
  the exception and the table as the exception leaves it.
\<close>

definition analyst_fields :: "string list" where
  "analyst_fields =
     [''Typeoverride'', ''Subtypeoverride'', ''Intensityoverride'', ''Annoyoverride'', ''Analystcomments'']"

fun add_fields :: "string list \<Rightarrow> text_table \<Rightarrow> (error \<times> text_table) + text_table" where
  "add_fields [] ocdata = Inr ocdata"
| "add_fields (analystextrafield # rest) ocdata =
     (if has_column ocdata analystextrafield then Inl (SchemaConflict, ocdata)
      else add_fields rest (setitem_scalar ocdata analystextrafield ''''))"

definition add_analyst_fields :: "text_table \<Rightarrow> (error \<times> text_table) + text_table" where
  "add_analyst_fields ocdata = add_fields analyst_fields ocdata"


section \<open>Typed columns and the library\<close>

text \<open>
  What a column of the frame is once \<^verbatim>\<open>type_casting\<close> has touched the frame: a pandas
  Series with its dtype.
  \<^item> \<open>Object xs\<close>: dtype object, the cells are the texts \<open>xs\<close> (a loaded column);
  \<^item> \<open>Category s\<close>: \<^verbatim>\<open>astype('category')\<close> of \<open>s\<close>, the values kept as labels;
  \<^item> \<open>Datetime64 ds\<close>: datetime64[ns], nanoseconds since the epoch, \<open>None\<close> is NaT;
  \<^item> \<open>Float64 fs\<close>: float64 holding whole numbers only (the code stores a float column
    only after \<^verbatim>\<open>round()\<close>), \<open>None\<close> is NaN;
  \<^item> \<open>Int64 ns\<close>: int64.
\<close>

datatype series =
    Object "string list"
  | Category series
  | Datetime64 "int option list"
  | Float64 "int option list"
  | Int64 "int list"

type_synonym typed_table = "series table"

text \<open>
  The parsers of pandas and numpy are not part of the module and are parameters of the
  model, one text at a time: \<open>None\<close> is the parser raising, \<open>Some None\<close> is NaT. A
  timedelta is a count of nanoseconds.
\<close>

record pandas =
  to_datetime :: "string \<Rightarrow> int option option"
  to_timedelta :: "string \<Rightarrow> int option option"
  int_of_str :: "string \<Rightarrow> int option"

definition as_object :: "text_table \<Rightarrow> typed_table" where
  "as_object t = \<lparr>nrows = nrows t, columns = map (\<lambda>(n, xs). (n, Object xs)) (columns t)\<rparr>"

text \<open>\<^verbatim>\<open>s.astype('category')\<close>; a categorical column stays as it is.\<close>

fun astype_category :: "series \<Rightarrow> series" where
  "astype_category (Category s) = Category s"
| "astype_category s = Category s"

text \<open>
  \<^verbatim>\<open>pd.to_datetime(s)\<close> on one column. A categorical is converted through its values;
  numbers are nanoseconds since the epoch.
\<close>

fun pd_to_datetime :: "pandas \<Rightarrow> series \<Rightarrow> error + series" where
  "pd_to_datetime pd (Object xs) =
     (case those (map (to_datetime pd) xs) of
        None \<Rightarrow> Inl MalformedDate
      | Some ds \<Rightarrow> Inr (Datetime64 ds))"
| "pd_to_datetime pd (Category s) = pd_to_datetime pd s"
| "pd_to_datetime pd (Datetime64 ds) = Inr (Datetime64 ds)"
| "pd_to_datetime pd (Float64 fs) = Inr (Datetime64 fs)"
| "pd_to_datetime pd (Int64 ns) = Inr (Datetime64 (map Some ns))"

text \<open>
  \<^verbatim>\<open>pd.to_timedelta(s)\<close> on one column: the nanoseconds of each cell. A datetime column is
  refused.
\<close>

fun pd_to_timedelta :: "pandas \<Rightarrow> series \<Rightarrow> error + int option list" where
  "pd_to_timedelta pd (Object xs) =
     (case those (map (to_timedelta pd) xs) of
        None \<Rightarrow> Inl MalformedDuration
      | Some tds \<Rightarrow> Inr tds)"
| "pd_to_timedelta pd (Category s) = pd_to_timedelta pd s"
| "pd_to_timedelta pd (Datetime64 ds) = Inl TypeError"
| "pd_to_timedelta pd (Float64 fs) = Inr fs"
| "pd_to_timedelta pd (Int64 ns) = Inr (map Some ns)"

text \<open>
  \<^verbatim>\<open>td / pd.Timedelta('60s')\<close> followed by \<^verbatim>\<open>round()\<close>. numpy divides two timedeltas as
  \<open>(double) a / (double) b\<close> on their nanosecond counts and \<^verbatim>\<open>round()\<close> is \<open>rint\<close>; both
  are modelled on integers, bit for bit:
  \<^item> \<open>round_half_even_div a b\<close>: the integer nearest to \<open>a / b\<close> for \<open>0 < b\<close>, a half to
    the even neighbour;
  \<^item> \<open>to_float64 a\<close>: the value of \<open>(double) a\<close> for an int64 \<open>a\<close>, which keeps the 53 leading
    bits, rounded half to even;
  \<^item> \<open>float64_divide x y\<close> for positive doubles \<open>x\<close>, \<open>y\<close> with integer values: the
    correctly rounded quotient as a pair \<open>(m, e)\<close> that stands for \<open>m * 2 ^ e\<close>, with
    \<open>2 ^ 52 \<le> m \<le> 2 ^ 53\<close> (no quotient of two int64 values is subnormal or overflows);
  \<^item> \<open>rint (m, e)\<close>: the whole number nearest to \<open>m * 2 ^ e\<close>, a half to the even
    neighbour.
  \<open>60000000000\<close> is \<^verbatim>\<open>pd.Timedelta('60s')\<close> in nanoseconds, itself a double. NaT becomes NaN.
\<close>

definition round_half_even_div :: "int \<Rightarrow> int \<Rightarrow> int" where
  "round_half_even_div a b =
     (let q = a div b; r = a mod b
      in if 2 * r < b then q else if b < 2 * r then q + 1 else if even q then q else q + 1)"

fun bit_length :: "nat \<Rightarrow> nat" where
  "bit_length n = (if n = 0 then 0 else Suc (bit_length (n div 2)))"

declare bit_length.simps [simp del]

definition to_float64 :: "int \<Rightarrow> int" where
  "to_float64 a =
     (let k = bit_length (nat \<bar>a\<bar>) - 53
      in sgn a * (round_half_even_div \<bar>a\<bar> (2 ^ k) * 2 ^ k))"

definition float64_divide :: "int \<Rightarrow> int \<Rightarrow> int \<times> int" where
  "float64_divide x y =
     (let t = int (bit_length (nat x)) - int (bit_length (nat y));
          l = (if y * 2 ^ nat t \<le> x * 2 ^ nat (- t) then t else t - 1);
          e = l - 52
      in (round_half_even_div (x * 2 ^ nat (- e)) (y * 2 ^ nat e), e))"

definition rint :: "int \<times> int \<Rightarrow> int" where
  "rint f =
     (case f of (m, e) \<Rightarrow>
        if 0 \<le> e then m * 2 ^ nat e else round_half_even_div m (2 ^ nat (- e)))"

definition minutes_float64 :: "int \<Rightarrow> int" where
  "minutes_float64 ns =
     (if ns = 0 then 0
      else sgn ns * rint (float64_divide \<bar>to_float64 ns\<bar> 60000000000))"

definition minutes :: "int option \<Rightarrow> int option" where
  "minutes td = map_option minutes_float64 td"

text \<open>
  \<^verbatim>\<open>s.str.replace(' ', '')\<close>: the \<^verbatim>\<open>.str\<close> accessor exists on text columns (a categorical
  of texts included) and gives an object column; elsewhere it is an AttributeError.
\<close>

fun str_replace_spaces :: "series \<Rightarrow> error + string list" where
  "str_replace_spaces (Object xs) = Inr (map (filter (\<lambda>c. c \<noteq> CHR '' '')) xs)"
| "str_replace_spaces (Category s) = str_replace_spaces s"
| "str_replace_spaces s = Inl AttributeError"

section \<open>type\_casting\<close>

definition category_types :: "string list" where
  "category_types =
     [''Type'', ''Subtype'', ''Zone'', ''Status'', ''Origin'', ''User'', ''Intensityoverride'',
      ''Annoyoverride'', ''Duration'']"

definition datetime_types :: "string list" where
  "datetime_types = [''Day'']"

definition timedelta_types :: "string list" where
  "timedelta_types = [''Time'', ''Duration'']"

definition int_types :: "string list" where
  "int_types = [''Intensity'', ''Annoy'']"

text \<open>
  \<^verbatim>\<open>ocdata[column]\<close> reads by label: one Series when the label is unique, a DataFrame of
  all the columns that carry it otherwise. \<open>getitem\<close> gives them in order.
  \<^verbatim>\<open>ocdata[column] = value\<close> writes every column of that label.
\<close>

definition getitem :: "'c table \<Rightarrow> string \<Rightarrow> 'c list" where
  "getitem ocdata column = map snd (filter (\<lambda>(n, s). n = column) (columns ocdata))"

definition map_label :: "string \<Rightarrow> (series \<Rightarrow> series) \<Rightarrow> typed_table \<Rightarrow> typed_table" where
  "map_label column f ocdata =
     ocdata\<lparr>columns := map (\<lambda>(n, s). (n, if n = column then f s else s)) (columns ocdata)\<rparr>"

text \<open>
  The four tests of the loop body, each on the frame as the one before left it. A test
  that raises leaves the frame as it was before that statement. On a DataFrame (a
  duplicated label) \<^verbatim>\<open>astype('category')\<close> casts each column, \<^verbatim>\<open>pd.to_datetime\<close> raises
  ValueError, \<^verbatim>\<open>pd.to_timedelta\<close> raises TypeError and \<^verbatim>\<open>.str\<close> does not exist.
\<close>

definition category_step :: "string \<Rightarrow> typed_table \<Rightarrow> typed_table" where
  "category_step column ocdata =
     (if column \<in> set category_types then map_label column astype_category ocdata else ocdata)"

definition datetime_step :: "pandas \<Rightarrow> string \<Rightarrow> typed_table \<Rightarrow> error + typed_table" where
  "datetime_step pd column ocdata =
     (if column \<in> set datetime_types then
        (case getitem ocdata column of
           [s] \<Rightarrow> (case pd_to_datetime pd s of
                     Inl e \<Rightarrow> Inl e
                   | Inr s' \<Rightarrow> Inr (map_label column (\<lambda>_. s') ocdata))
         | _ \<Rightarrow> Inl ValueError)
      else Inr ocdata)"

definition timedelta_step :: "pandas \<Rightarrow> string \<Rightarrow> typed_table \<Rightarrow> error + typed_table" where
  "timedelta_step pd column ocdata =
     (if column \<in> set timedelta_types then
        (case getitem ocdata column of
           [s] \<Rightarrow> (case pd_to_timedelta pd s of
                     Inl e \<Rightarrow> Inl e
                   | Inr tds \<Rightarrow> Inr (map_label column (\<lambda>_. Float64 (map minutes tds)) ocdata))
         | _ \<Rightarrow> Inl TypeError)
      else Inr ocdata)"

text \<open>
  The integer test makes three assignments; the last one, \<^verbatim>\<open>astype(int)\<close>, can raise, and
  then the column is left as the texts without their spaces. \<^verbatim>\<open>astype(str)\<close> changes
  nothing on texts.
\<close>

definition int_step :: "pandas \<Rightarrow> string \<Rightarrow> typed_table \<Rightarrow> typed_table \<times> error option" where
  "int_step pd column ocdata =
     (if column \<in> set int_types then
        (case getitem ocdata column of
           [s] \<Rightarrow> (case str_replace_spaces s of
                     Inl e \<Rightarrow> (ocdata, Some e)
                   | Inr xs \<Rightarrow>
                       (let ocdata = map_label column (\<lambda>_. Object xs) ocdata
                        in case those (map (int_of_str pd) xs) of
                             None \<Rightarrow> (ocdata, Some MalformedInteger)
                           | Some ns \<Rightarrow> (map_label column (\<lambda>_. Int64 ns) ocdata, None)))
         | _ \<Rightarrow> (ocdata, Some AttributeError))
      else (ocdata, None))"

definition cast_label :: "pandas \<Rightarrow> string \<Rightarrow> typed_table \<Rightarrow> typed_table \<times> error option" where
  "cast_label pd column ocdata =
     (let ocdata = category_step column ocdata
      in case datetime_step pd column ocdata of
           Inl e \<Rightarrow> (ocdata, Some e)
         | Inr ocdata \<Rightarrow>
             (case timedelta_step pd column ocdata of
                Inl e \<Rightarrow> (ocdata, Some e)
              | Inr ocdata \<Rightarrow> int_step pd column ocdata))"

text \<open>
  \<^verbatim>\<open>for column in ocdata\<close>: the labels of the frame in order, a duplicated label once for
  each of its columns. The labels do not change during the loop.
\<close>

fun type_casting_loop :: "pandas \<Rightarrow> string list \<Rightarrow> typed_table \<Rightarrow> typed_table \<times> error option" where
  "type_casting_loop pd [] ocdata = (ocdata, None)"
| "type_casting_loop pd (column # rest) ocdata =
     (case cast_label pd column ocdata of
        (ocdata, Some e) \<Rightarrow> (ocdata, Some e)
      | (ocdata, None) \<Rightarrow> type_casting_loop pd rest ocdata)"

text \<open>
  \<^verbatim>\<open>type_casting\<close> has no \<^verbatim>\<open>return\<close> statement: when the loop ends the call returns
  Python's \<^verbatim>\<open>None\<close>. The result here is the frame as the call leaves it, and the exception
  if one was raised.
\<close>

definition type_casting :: "pandas \<Rightarrow> text_table \<Rightarrow> typed_table \<times> error option" where
  "type_casting pd ocdata = type_casting_loop pd (column_names ocdata) (as_object ocdata)"

text \<open>Two frames that differ at most in the columns of one label.\<close>

definition same_but :: "string \<Rightarrow> typed_table \<Rightarrow> typed_table \<Rightarrow> bool" where
  "same_but n T T' =
     (column_names T' = column_names T \<and> nrows T' = nrows T
      \<and> (\<forall>m. m \<noteq> n \<longrightarrow> getitem T' m = getitem T m))"

section \<open>The filter provider\<close>

text \<open>
  The frame is one object, mutated in place. A call of a filter ends in one of three
  ways: it returns the frame it was given (\<open>Returns_frame\<close>, with the frame's new
  contents), it returns \<^verbatim>\<open>None\<close> (\<open>Returns_None\<close>, with the frame's contents), or it
  raises (\<open>Raises\<close>, with the contents the exception leaves behind).
\<close>

datatype frame = TextFrame text_table | TypedFrame typed_table

datatype result =
    Returns_frame text_table
  | Returns_None typed_table
  | Raises error frame

text \<open>The row count of the frame when a call has ended, however it ended.\<close>

fun rows_after :: "result \<Rightarrow> nat" where
  "rows_after (Returns_frame ocdata) = nrows ocdata"
| "rows_after (Returns_None ocdata) = nrows ocdata"
| "rows_after (Raises e (TextFrame ocdata)) = nrows ocdata"
| "rows_after (Raises e (TypedFrame ocdata)) = nrows ocdata"

text \<open>
  \<^verbatim>\<open>dir(self)\<close> without the names that start with an underscore: the five static methods
  (\<^verbatim>\<open>AVAILABLE\<close> and \<^verbatim>\<open>filter_list\<close> are not yet attributes when \<^verbatim>\<open>dir\<close> runs).
\<close>

definition AVAILABLE :: "string set" where
  "AVAILABLE =
     set [''add_analyst_fields'', ''fix_typos'', ''fix_userids'', ''odour_literals_to_numbers'',
          ''type_casting'']"

text \<open>
  \<^verbatim>\<open>getattr(self, data_filter)(data_frame)\<close> with \<open>data_frame\<close> the frame. The names that
  reach this call have passed the membership test of the constructor; for a name that is
  no attribute \<^verbatim>\<open>getattr\<close> raises AttributeError.
\<close>

definition call :: "pandas \<Rightarrow> string \<Rightarrow> text_table \<Rightarrow> result" where
  "call pd data_filter data_frame =
     (if data_filter = ''fix_typos'' then Returns_frame (fix_typos data_frame)
      else if data_filter = ''fix_userids'' then Returns_frame (fix_userids data_frame)
      else if data_filter = ''odour_literals_to_numbers''
        then Returns_frame (odour_literals_to_numbers data_frame)
      else if data_filter = ''add_analyst_fields'' then
        (case add_analyst_fields data_frame of
           Inl (e, ocdata) \<Rightarrow> Raises e (TextFrame ocdata)
         | Inr ocdata \<Rightarrow> Returns_frame ocdata)
      else if data_filter = ''type_casting'' then
        (case type_casting pd data_frame of
           (ocdata, Some e) \<Rightarrow> Raises e (TypedFrame ocdata)
         | (ocdata, None) \<Rightarrow> Returns_None ocdata)
      else Raises AttributeError (TextFrame data_frame))"

text \<open>
  The same call with \<open>data_frame = None\<close>: \<^verbatim>\<open>'Intentity' in None\<close> and
  \<^verbatim>\<open>for column in None\<close> are TypeErrors, \<^verbatim>\<open>None.replace\<close> and a \<^verbatim>\<open>getattr\<close> of a name
  that is no method are AttributeErrors.
\<close>

definition call_None :: "string \<Rightarrow> error" where
  "call_None data_filter =
     (if data_filter \<in> set [''fix_typos'', ''fix_userids'', ''add_analyst_fields'', ''type_casting'']
      then TypeError else AttributeError)"

text \<open>
  \<^verbatim>\<open>__run__\<close>: the loop \<^verbatim>\<open>data_frame = getattr(self, data_filter)(data_frame)\<close>.
  \<open>run_None\<close> is the rest of the loop once \<open>data_frame\<close> holds \<^verbatim>\<open>None\<close>.
\<close>

fun run_None :: "string list \<Rightarrow> typed_table \<Rightarrow> result" where
  "run_None [] ocdata = Returns_None ocdata"
| "run_None (data_filter # rest) ocdata = Raises (call_None data_filter) (TypedFrame ocdata)"

fun run :: "pandas \<Rightarrow> string list \<Rightarrow> text_table \<Rightarrow> result" where
  "run pd [] data_frame = Returns_frame data_frame"
| "run pd (data_filter # rest) data_frame =
     (case call pd data_filter data_frame of
        Returns_frame data_frame \<Rightarrow> run pd rest data_frame
      | Returns_None ocdata \<Rightarrow> run_None rest ocdata
      | Raises e fr \<Rightarrow> Raises e fr)"

text \<open>
  \<^verbatim>\<open>OCFilterProvider.__init__\<close>: the membership test, then the run, whose return value is
  dropped. The outcome is the frame's contents and, when the constructor raised, the
  exception.
\<close>

datatype construction = Constructed frame | Failed error frame

definition unknown_filter_text :: string where
  "unknown_filter_text =
     ''The list of OC data filters specified includes at least one not known.Available filters:''
       @ [CHR 0x0A]"

definition OCFilterProvider :: "pandas \<Rightarrow> text_table \<Rightarrow> string list \<Rightarrow> construction" where
  "OCFilterProvider pd data_frame filter_list =
     (if \<not> set filter_list \<subseteq> AVAILABLE
      then Failed (UnknownFilter unknown_filter_text AVAILABLE) (TextFrame data_frame)
      else (case run pd filter_list data_frame of
              Returns_frame ocdata \<Rightarrow> Constructed (TextFrame ocdata)
            | Returns_None ocdata \<Rightarrow> Constructed (TypedFrame ocdata)
            | Raises e fr \<Rightarrow> Failed e fr))"

definition observation_filters :: "string list" where
  "observation_filters =
     [''fix_typos'', ''fix_userids'', ''odour_literals_to_numbers'', ''add_analyst_fields'',
      ''type_casting'']"

definition analysis_filters :: "string list" where
  "analysis_filters = [''type_casting'']"

text \<open>
  Whether an exception tells the reader a given name: the name is in the set the message
  prints, or it occurs in the literal text of the message.
\<close>

fun starts_with :: "string \<Rightarrow> string \<Rightarrow> bool" where
  "starts_with [] ys = True"
| "starts_with (x # xs) [] = False"
| "starts_with (x # xs) (y # ys) = (x = y \<and> starts_with xs ys)"

fun occurs_in :: "string \<Rightarrow> string \<Rightarrow> bool" where
  "occurs_in xs [] = (xs = [])"
| "occurs_in xs (y # ys) = (starts_with xs (y # ys) \<or> occurs_in xs ys)"

fun names_entry :: "error \<Rightarrow> string \<Rightarrow> bool" where
  "names_entry (UnknownFilter txt av) name = (name \<in> av \<or> occurs_in name txt)"
| "names_entry e name = False"

section \<open>Paths and the loader\<close>

text \<open>
  \<^verbatim>\<open>os.path.basename\<close> and \<^verbatim>\<open>os.path.splitext\<close> as \<^verbatim>\<open>posixpath\<close> computes them, with
  \<^verbatim>\<open>str.rfind\<close> giving \<open>- 1\<close> for a character that does not occur. \<^verbatim>\<open>splitext\<close> cuts at
  the last dot when it lies after the last slash and some character between the two is
  not a dot (leading dots of the file name do not start an extension).
\<close>

definition rfind :: "char \<Rightarrow> string \<Rightarrow> int" where
  "rfind c p =
     (if c \<in> set p then int (length p) - 1 - int (length (takeWhile (\<lambda>x. x \<noteq> c) (rev p))) else - 1)"

definition basename :: "string \<Rightarrow> string" where
  "basename p = drop (nat (rfind CHR ''/'' p + 1)) p"

definition splitext :: "string \<Rightarrow> string \<times> string" where
  "splitext p =
     (let sepIndex = rfind CHR ''/'' p; dotIndex = rfind CHR ''.'' p
      in if sepIndex < dotIndex
            \<and> list_ex (\<lambda>c. c \<noteq> CHR ''.'') (take (nat (dotIndex - (sepIndex + 1))) (drop (nat (sepIndex + 1)) p))
         then (take (nat dotIndex) p, drop (nat dotIndex) p)
         else (p, []))"

text \<open>\<^verbatim>\<open>s.split(c, -1)\<close>: the pieces of \<open>s\<close> between the occurrences of \<open>c\<close>.\<close>

fun split_on :: "char \<Rightarrow> string \<Rightarrow> string list" where
  "split_on c [] = [[]]"
| "split_on c (x # xs) =
     (if x = c then [] # split_on c xs
      else (case split_on c xs of
              [] \<Rightarrow> [[x]]
            | y # ys \<Rightarrow> (x # y) # ys))"

text \<open>
  \<^verbatim>\<open>os.path.splitext(file_name)[1].split('.', -1)[1]\<close>: the index \<open>1\<close> is out of range when
  the split gives one piece.
\<close>

definition autodetect :: "string \<Rightarrow> error + string" where
  "autodetect file_name =
     (case split_on CHR ''.'' (snd (splitext file_name)) of
        a # b # rest \<Rightarrow> Inr b
      | _ \<Rightarrow> Inl IndexError)"

datatype reader = Csv | Excel

text \<open>The choice of the reader in \<^verbatim>\<open>GenericOCData.__init__\<close>, before any file is read.\<close>

definition resolve_reader :: "string \<Rightarrow> string \<Rightarrow> error + reader" where
  "resolve_reader file_name file_type =
     (case (if file_type = ''auto'' then autodetect file_name else Inr file_type) of
        Inl e \<Rightarrow> Inl e
      | Inr file_type \<Rightarrow>
          (if file_type = ''csv'' then Inr Csv
           else if file_type = ''xlsx'' \<or> file_type = ''xls'' then Inr Excel
           else Inl UnsupportedFormat))"

text \<open>
  \<^verbatim>\<open>GenericOCData.__init__\<close>; \<^verbatim>\<open>pd.read_csv\<close> and \<^verbatim>\<open>pd.read_excel\<close> are parameters.
\<close>

definition GenericOCData ::
  "(string \<Rightarrow> error + text_table) \<Rightarrow> (string \<Rightarrow> error + text_table) \<Rightarrow> string \<Rightarrow> string
   \<Rightarrow> error + text_table" where
  "GenericOCData read_csv read_excel file_name file_type =
     (case resolve_reader file_name file_type of
        Inl e \<Rightarrow> Inl e
      | Inr Csv \<Rightarrow> read_csv file_name
      | Inr Excel \<Rightarrow> read_excel file_name)"

text \<open>
  The two kinds of dataset: the loader, then the provider on the loaded table with the
  filter list of the kind.
\<close>

definition OCObservationData ::
  "(string \<Rightarrow> error + text_table) \<Rightarrow> (string \<Rightarrow> error + text_table) \<Rightarrow> pandas
   \<Rightarrow> string \<Rightarrow> string \<Rightarrow> error + construction" where
  "OCObservationData read_csv read_excel pd file_name file_type =
     (case GenericOCData read_csv read_excel file_name file_type of
        Inl e \<Rightarrow> Inl e
      | Inr data \<Rightarrow> Inr (OCFilterProvider pd data observation_filters))"

definition OCAnalysisData ::
  "(string \<Rightarrow> error + text_table) \<Rightarrow> (string \<Rightarrow> error + text_table) \<Rightarrow> pandas
   \<Rightarrow> string \<Rightarrow> string \<Rightarrow> error + construction" where
  "OCAnalysisData read_csv read_excel pd file_name file_type =
     (case GenericOCData read_csv read_excel file_name file_type of
        Inl e \<Rightarrow> Inl e
      | Inr data \<Rightarrow> Inr (OCFilterProvider pd data analysis_filters))"

section \<open>The map configuration\<close>

text \<open>
  Python values as far as the configuration needs them, and what \<^verbatim>\<open>eval\<close> does with a
  text: it gives a value, it raises SyntaxError, or it raises something else. \<^verbatim>\<open>eval\<close> and
  the file system (a map from paths to file contents) are parameters.
\<close>

datatype pyobject =
    PyDict "(pyobject \<times> pyobject) list"
  | PyList "pyobject list"
  | PyStr string
  | PyInt int
  | PyNone

datatype evaluation = Value pyobject | RaisesSyntaxError | RaisesOther

fun is_dict :: "pyobject \<Rightarrow> bool" where
  "is_dict (PyDict kvs) = True"
| "is_dict v = False"

text \<open>\<^verbatim>\<open>os.path.join(a, b)\<close> for two components.\<close>

definition path_join :: "string \<Rightarrow> string \<Rightarrow> string" where
  "path_join a b =
     (if starts_with ''/'' b then b
      else if a = [] \<or> last a = CHR ''/'' then a @ b
      else a @ ''/'' @ b)"

text \<open>
  \<^verbatim>\<open>OCMapConfig.__init__\<close>: the folder name without directory and extension, which must
  be a directory (\<open>isdir\<close> is the file system's answer).
\<close>

definition OCMapConfig :: "(string \<Rightarrow> bool) \<Rightarrow> string \<Rightarrow> error + string" where
  "OCMapConfig isdir conf_folder =
     (let conf_folder = fst (splitext (basename conf_folder))
      in if isdir conf_folder then Inr conf_folder else Inl ConfigNotFound)"

text \<open>\<^verbatim>\<open>OCMapConfig.get\<close>, with \<open>conf_folder\<close> the folder the constructor kept.\<close>

definition OCMapConfig_get ::
  "(string \<rightharpoonup> string) \<Rightarrow> (string \<Rightarrow> evaluation) \<Rightarrow> string \<Rightarrow> string \<Rightarrow> error + pyobject" where
  "OCMapConfig_get files py_eval conf_folder conf_name =
     (let conf_name = fst (splitext (basename conf_name));
          map_conf_path = path_join conf_folder (conf_name @ ''.conf'')
      in case files map_conf_path of
           Some conf_contents \<Rightarrow>
             (case py_eval conf_contents of
                Value v \<Rightarrow> Inr v
              | RaisesSyntaxError \<Rightarrow> Inl ConfigMalformed
              | RaisesOther \<Rightarrow> Inl OtherError)
         | None \<Rightarrow> Inl ConfigNotFound)"

section \<open>A stand-in for the library, for the closed examples\<close>

text \<open>
  The examples below run the model on concrete tables and need concrete parsers. This one
  reads the duration texts that \<^verbatim>\<open>odour_literals_to_numbers\<close> writes, one date and the
  integer codes; every other text it refuses.
\<close>

definition example_pandas :: pandas where
  "example_pandas =
     \<lparr>to_datetime = (\<lambda>s. if s = ''2020-01-01'' then Some (Some 1577836800000000000) else None),
      to_timedelta = (\<lambda>s. map_of
         [(''1 day 00:00:00'', Some 86400000000000),
          (''01:00:00'', Some 3600000000000),
          (''00:05:00'', Some 300000000000),
          (''00:00:00'', Some 0)] s),
      int_of_str = (\<lambda>s. map_of
         [(''-4'', - 4), (''-3'', - 3), (''-2'', - 2), (''-1'', - 1), (''0'', 0),
          (''1'', 1), (''2'', 2), (''3'', 3), (''4'', 4), (''5'', 5), (''6'', 6)] s)\<rparr>"

section \<open>Properties of the text filters\<close>

lemma column_names_rename:
  "column_names (rename a b t) = map (\<lambda>n. if n = a then b else n) (column_names t)"
  by (simp add: column_names_def rename_def comp_def case_prod_beta)

lemma has_column_rename:
  "has_column (rename a b t) x = (if x = b then has_column t a \<or> has_column t b else x \<noteq> a \<and> has_column t x)"
  unfolding has_column_def column_names_rename by auto

lemma rename_absent: "\<not> has_column t a \<Longrightarrow> rename a b t = t"
proof -
  assume "\<not> has_column t a"
  then have "map (\<lambda>(n, c). (if n = a then b else n, c)) (columns t) = columns t"
    by (intro map_idI) (auto simp: has_column_def column_names_def image_iff)
  then show ?thesis by (simp add: rename_def)
qed

lemma fix_typos_no_sources:
  "\<not> has_column (fix_typos t) ''Intentity'' \<and> \<not> has_column (fix_typos t) ''day''
   \<and> \<not> has_column (fix_typos t) ''time''"
  by (simp add: fix_typos_def Let_def has_column_rename)

lemma fix_typos_noop:
  "\<not> has_column t ''Intentity'' \<Longrightarrow> \<not> has_column t ''day'' \<Longrightarrow> \<not> has_column t ''time''
   \<Longrightarrow> fix_typos t = t"
  by (simp add: fix_typos_def)

text \<open>
  C8. \<^verbatim>\<open>fix_typos\<close> is idempotent: on every table, labels unique or not, applying it twice
  gives the table that applying it once gives, since after one application none of the
  three misspelt labels is left.
\<close>

theorem fix_typos_idempotent: "fix_typos (fix_typos t) = fix_typos t"
  using fix_typos_no_sources [of t] by (intro fix_typos_noop) simp_all

theorem fix_typos_idempotent_witness:
  "fix_typos (fix_typos \<lparr>nrows = 1, columns = [(''Intentity'', [''Weak'']), (''day'', [''2020-01-01''])]\<rparr>)
   = \<lparr>nrows = 1, columns = [(''Intensity'', [''Weak'']), (''Day'', [''2020-01-01''])]\<rparr>"
  by (subst fix_typos_idempotent)
     (simp add: fix_typos_def has_column_def column_names_def rename_def)

text \<open>
  C4. In a table with an \<open>Annoy\<close> column holding \<open>Slightly unpleasant\<close>,
  \<open>Moderate unpleasant\<close> and the empty text, \<^verbatim>\<open>odour_literals_to_numbers\<close> leaves at the
  same position an \<open>Annoy\<close> column holding \<open>-1\<close>, \<open>-3\<close> and \<open>0\<close>: the nine-level mapping
  rewrites the first and the last cell, the second dictionary the misspelt label.
\<close>

theorem annoy_example:
  "j < length (columns t) \<Longrightarrow>
   columns t ! j = (''Annoy'', [''Slightly unpleasant'', ''Moderate unpleasant'', '''']) \<Longrightarrow>
   columns (odour_literals_to_numbers t) ! j = (''Annoy'', [''-1'', ''-3'', ''0''])
   \<and> length (columns (odour_literals_to_numbers t)) = length (columns t)
   \<and> nrows (odour_literals_to_numbers t) = nrows t"
  by (simp add: odour_literals_to_numbers_def replace_def replace_values_def
      intensity_and_annoy_mapping_def annoy_mapping_def bastard_tone_mapping_def)

theorem annoy_example_witness:
  "columns (odour_literals_to_numbers
      \<lparr>nrows = 3, columns = [(''Type'', [''a'', ''b'', ''c'']),
                             (''Annoy'', [''Slightly unpleasant'', ''Moderate unpleasant'', ''''])]\<rparr>) ! 1
     = (''Annoy'', [''-1'', ''-3'', ''0''])"
  using annoy_example [of 1 "\<lparr>nrows = 3, columns = [(''Type'', [''a'', ''b'', ''c'']),
                             (''Annoy'', [''Slightly unpleasant'', ''Moderate unpleasant'', ''''])]\<rparr>"]
  by simp

subsection \<open>add\_analyst\_fields\<close>

lemma nrows_setitem_scalar [simp]: "nrows (setitem_scalar t n v) = nrows t"
  by (simp add: setitem_scalar_def)


lemma setitem_scalar_absent:
  "\<not> has_column t f \<Longrightarrow> setitem_scalar t f v = t\<lparr>columns := columns t @ [(f, replicate (nrows t) v)]\<rparr>"
  by (simp add: setitem_scalar_def)





subsection \<open>The membership test of the filter provider\<close>

text \<open>
  C5, as the code has it. A filter list with a name outside the registry makes the
  provider raise UnknownFilter without running any filter: the frame is as it was given.
  The message is a fixed text followed by the set of available names, which are the five
  filters; nothing in it depends on the list that was asked for.
\<close>

theorem unknown_filter_rejected:
  "\<not> set filter_list \<subseteq> AVAILABLE \<Longrightarrow>
   OCFilterProvider pd data_frame filter_list =
     Failed (UnknownFilter unknown_filter_text AVAILABLE) (TextFrame data_frame)
   \<and> AVAILABLE = {''fix_typos'', ''fix_userids'', ''odour_literals_to_numbers'',
                   ''add_analyst_fields'', ''type_casting''}"
  by (auto simp: OCFilterProvider_def AVAILABLE_def)

theorem unknown_filter_rejected_witness:
  "OCFilterProvider example_pandas \<lparr>nrows = 1, columns = [(''Intentity'', [''Weak''])]\<rparr>
     [''fix_typos'', ''bogus_filter''] =
     Failed (UnknownFilter unknown_filter_text AVAILABLE)
       (TextFrame \<lparr>nrows = 1, columns = [(''Intentity'', [''Weak''])]\<rparr>)"
  using unknown_filter_rejected [of "[''fix_typos'', ''bogus_filter'']" example_pandas
      "\<lparr>nrows = 1, columns = [(''Intentity'', [''Weak''])]\<rparr>"]
  by (simp add: AVAILABLE_def)

text \<open>
  The claim C5 as it was stated fails: for the list \<open>fix_typos, bogus_filter\<close> the
  exception does not name \<open>bogus_filter\<close>, neither in its text nor in the set it prints.
\<close>

theorem unknown_filter_error_does_not_name_offender:
  "OCFilterProvider example_pandas \<lparr>nrows = 1, columns = [(''Intentity'', [''Weak''])]\<rparr>
     [''fix_typos'', ''bogus_filter''] =
     Failed (UnknownFilter unknown_filter_text AVAILABLE)
       (TextFrame \<lparr>nrows = 1, columns = [(''Intentity'', [''Weak''])]\<rparr>)
   \<and> \<not> names_entry (UnknownFilter unknown_filter_text AVAILABLE) ''bogus_filter''"
  by (simp add: OCFilterProvider_def AVAILABLE_def unknown_filter_text_def)

subsection \<open>The map configuration\<close>

text \<open>
  C6, what the code does where the claim fails. When the configuration file exists,
  \<^verbatim>\<open>get\<close> returns whatever value \<^verbatim>\<open>eval\<close> gives for its content: nothing checks that the
  value is a dictionary. A file holding \<open>42\<close> yields the integer 42.
\<close>

theorem config_get_returns_any_value:
  "files (path_join conf_folder (fst (splitext (basename conf_name)) @ ''.conf'')) = Some conf_contents \<Longrightarrow>
   py_eval conf_contents = Value v \<Longrightarrow>
   OCMapConfig_get files py_eval conf_folder conf_name = Inr v"
  by (simp add: OCMapConfig_get_def Let_def)

theorem config_get_returns_any_value_witness:
  "OCMapConfig_get [''mapconf/mymap.conf'' \<mapsto> ''42'']
     (\<lambda>c. if c = ''42'' then Value (PyInt 42) else RaisesSyntaxError) ''mapconf'' ''mymap''
   = Inr (PyInt 42) \<and> \<not> is_dict (PyInt 42)"
  using config_get_returns_any_value [of "[''mapconf/mymap.conf'' \<mapsto> ''42'']" "''mapconf''" "''mymap''" "''42''"
      "(\<lambda>c. if c = ''42'' then Value (PyInt 42) else RaisesSyntaxError)" "PyInt 42"]
  by (simp add: splitext_def rfind_def Let_def basename_def path_join_def)

subsection \<open>The loader's type detection\<close>

lemma rfind_last:
  assumes "c \<in> set p"
  shows "\<exists>pre suf. p = pre @ c # suf \<and> c \<notin> set suf \<and> rfind c p = int (length pre)"
proof -
  from split_list_last [OF assms] obtain pre suf where p: "p = pre @ c # suf" and c: "c \<notin> set suf"
    by blast
  have "takeWhile (\<lambda>x. x \<noteq> c) (rev suf @ c # rev pre) = rev suf @ takeWhile (\<lambda>x. x \<noteq> c) (c # rev pre)"
    using c by (intro takeWhile_append2) auto
  then have "takeWhile (\<lambda>x. x \<noteq> c) (rev p) = rev suf"
    by (simp add: p)
  then have "rfind c p = int (length pre)"
    using assms by (simp add: rfind_def p)
  with p c show ?thesis by blast
qed

lemma rfind_absent: "c \<notin> set p \<Longrightarrow> rfind c p = - 1"
  by (simp add: rfind_def)

lemma rfind_ge: "- 1 \<le> rfind c p"
  by (cases "c \<in> set p") (use rfind_last [of c p] in \<open>auto simp: rfind_absent\<close>)

lemma splitext_no_dot_in_basename:
  assumes "CHR ''.'' \<notin> set (basename p)"
  shows "snd (splitext p) = []"
proof (cases "CHR ''.'' \<in> set p")
  case False
  then show ?thesis
    using rfind_ge [of "CHR ''/''" p] by (simp add: splitext_def rfind_absent Let_def)
next
  case True
  from rfind_last [OF True] obtain pre suf where p: "p = pre @ CHR ''.'' # suf"
    and r: "rfind CHR ''.'' p = int (length pre)" by blast
  have "\<not> rfind CHR ''/'' p < rfind CHR ''.'' p"
  proof
    assume lt: "rfind CHR ''/'' p < rfind CHR ''.'' p"
    then have le: "nat (rfind CHR ''/'' p + 1) \<le> length pre"
      using r rfind_ge [of "CHR ''/''" p] by simp
    define k where "k = nat (rfind CHR ''/'' p + 1)"
    from le have "k \<le> length pre" by (simp add: k_def)
    then have "drop k p = drop k pre @ CHR ''.'' # suf"
      by (simp add: p)
    then have "drop (nat (rfind CHR ''/'' p + 1)) p = drop k pre @ CHR ''.'' # suf"
      by (simp add: k_def)
    then have "CHR ''.'' \<in> set (basename p)"
      by (simp add: basename_def)
    with assms show False by contradiction
  qed
  then show ?thesis by (simp add: splitext_def Let_def)
qed

lemma splitext_ext_shape:
  "snd (splitext p) = [] \<or> (\<exists>e. snd (splitext p) = CHR ''.'' # e \<and> CHR ''.'' \<notin> set e)"
proof (cases "CHR ''.'' \<in> set p")
  case False
  then show ?thesis
    using rfind_ge [of "CHR ''/''" p] by (simp add: splitext_def rfind_absent Let_def)
next
  case True
  from rfind_last [OF True] obtain pre suf where p: "p = pre @ CHR ''.'' # suf"
    and s: "CHR ''.'' \<notin> set suf"
    and r: "rfind CHR ''.'' p = int (length pre)" by blast
  have "drop (nat (rfind CHR ''.'' p)) p = drop (length pre) p"
    by (simp add: r)
  also have "\<dots> = CHR ''.'' # suf"
    by (simp add: p)
  finally have "drop (nat (rfind CHR ''.'' p)) p = CHR ''.'' # suf" .
  with s show ?thesis by (auto simp: splitext_def Let_def)
qed

lemma split_on_no_sep: "c \<notin> set e \<Longrightarrow> split_on c e = [e]"
  by (induction e) auto

lemma autodetect_cases:
  "autodetect p = (case snd (splitext p) of [] \<Rightarrow> Inl IndexError | x # e \<Rightarrow> Inr e)"
  using splitext_ext_shape [of p]
  by (auto simp: autodetect_def split_on_no_sep)

text \<open>
  C10. With the type hint \<open>auto\<close>, a path whose base name has no dot makes the loader
  raise IndexError: \<^verbatim>\<open>splitext\<close> gives an empty extension, its split has one piece, and
  the index \<open>1\<close> is out of range. The loader (and already its choice of reader) ends
  this way before any file is read. Under \<open>auto\<close> the choice of reader ends in
  UnsupportedFormat exactly when the path has an extension, a dot followed by a text,
  and that text is none of \<open>csv\<close>, \<open>xlsx\<close>, \<open>xls\<close>.
\<close>

theorem auto_without_extension:
  "(CHR ''.'' \<notin> set (basename file_name) \<longrightarrow>
      resolve_reader file_name ''auto'' = Inl IndexError
      \<and> GenericOCData read_csv read_excel file_name ''auto'' = Inl IndexError)
   \<and> (resolve_reader file_name ''auto'' = Inl UnsupportedFormat \<longleftrightarrow>
        (\<exists>e. snd (splitext file_name) = CHR ''.'' # e \<and> e \<notin> {''csv'', ''xlsx'', ''xls''}))"
proof -
  have a: "autodetect file_name = Inl IndexError" if "CHR ''.'' \<notin> set (basename file_name)"
    using splitext_no_dot_in_basename [OF that] by (simp add: autodetect_cases)
  have b: "resolve_reader file_name ''auto'' = Inl UnsupportedFormat \<longleftrightarrow>
        (\<exists>e. snd (splitext file_name) = CHR ''.'' # e \<and> e \<notin> {''csv'', ''xlsx'', ''xls''})"
    using splitext_ext_shape [of file_name]
    by (auto simp: resolve_reader_def autodetect_cases split: list.splits)
  show ?thesis
    using a b by (simp add: resolve_reader_def GenericOCData_def)
qed

theorem auto_without_extension_witness:
  "CHR ''.'' \<notin> set (basename ''exports/observations'')
   \<and> resolve_reader ''exports/observations'' ''auto'' = Inl IndexError
   \<and> GenericOCData (\<lambda>f. Inl OtherError) (\<lambda>f. Inl OtherError) ''exports/observations'' ''auto'' = Inl IndexError
   \<and> resolve_reader ''exports/observations.txt'' ''auto'' = Inl UnsupportedFormat
   \<and> snd (splitext ''exports/observations.txt'') = ''.txt''"
  using auto_without_extension [of "''exports/observations''" "(\<lambda>f. Inl OtherError)" "(\<lambda>f. Inl OtherError)"]
    auto_without_extension [of "''exports/observations.txt''" "(\<lambda>f. Inl OtherError)" "(\<lambda>f. Inl OtherError)"]
  by (simp add: basename_def rfind_def splitext_def Let_def)

section \<open>Properties of type\_casting\<close>

subsection \<open>Reading and writing by label\<close>

lemma select_map_columns:
  "map snd (filter (\<lambda>(n, s). n = m) (map (\<lambda>(n, s). (n, g n s)) cs))
   = map (g m) (map snd (filter (\<lambda>(n, s). n = m) cs))"
  by (induction cs) auto

lemma names_map_columns: "map fst (map (\<lambda>(n, s). (n, g n s)) cs) = map fst cs"
  by (induction cs) auto

lemma select_names: "map (\<lambda>_. m) (filter (\<lambda>(n, s). n = m) cs) = filter (\<lambda>n. n = m) (map fst cs)"
  by (induction cs) auto

lemma column_names_map_label [simp]: "column_names (map_label n f T) = column_names T"
  using names_map_columns [of "\<lambda>k s. if k = n then f s else s" "columns T"]
  by (simp add: column_names_def map_label_def)

lemma nrows_map_label [simp]: "nrows (map_label n f T) = nrows T"
  by (simp add: map_label_def)

lemma getitem_map_label:
  "getitem (map_label n f T) m = (if m = n then map f (getitem T n) else getitem T m)"
  by (simp add: getitem_def map_label_def select_map_columns)

lemma getitem_as_object: "getitem (as_object t) m = map Object (getitem t m)"
  using select_map_columns [of m "\<lambda>n. Object" "columns t"]
  by (simp add: getitem_def as_object_def)

lemma column_names_as_object [simp]: "column_names (as_object t) = column_names t"
  using names_map_columns [of "\<lambda>n. Object" "columns t"]
  by (simp add: column_names_def as_object_def)

lemma nrows_as_object [simp]: "nrows (as_object t) = nrows t"
  by (simp add: as_object_def)

lemma getitem_names: "map (\<lambda>_. m) (getitem T m) = filter (\<lambda>n. n = m) (column_names T)"
  using select_names [of m "columns T"]
  by (simp add: getitem_def column_names_def comp_def)

subsection \<open>One pass of the loop body\<close>

lemma same_but_refl: "same_but n T T"
  by (simp add: same_but_def)

lemma same_but_trans: "same_but n T T' \<Longrightarrow> same_but n T' T'' \<Longrightarrow> same_but n T T''"
  by (simp add: same_but_def)

lemma same_but_map_label: "same_but n T (map_label n f T)"
  by (simp add: same_but_def getitem_map_label)

lemma category_step_same: "same_but n T (category_step n T)"
  by (simp add: category_step_def same_but_refl same_but_map_label)

lemma datetime_step_same: "datetime_step pd n T = Inr T' \<Longrightarrow> same_but n T T'"
  by (auto simp: datetime_step_def same_but_refl same_but_map_label
      split: if_splits list.splits sum.splits)

lemma timedelta_step_same: "timedelta_step pd n T = Inr T' \<Longrightarrow> same_but n T T'"
  by (auto simp: timedelta_step_def same_but_refl same_but_map_label
      split: if_splits list.splits sum.splits)

lemma int_step_same: "same_but n T (fst (int_step pd n T))"
proof -
  have "same_but n T (map_label n g (map_label n f T))" for f g
    by (rule same_but_trans [OF same_but_map_label same_but_map_label])
  then show ?thesis
    by (auto simp: int_step_def Let_def same_but_refl same_but_map_label
        split: list.splits sum.splits option.splits)
qed

lemma cast_label_same: "same_but n T (fst (cast_label pd n T))"
proof -
  let ?T1 = "category_step n T"
  have 1: "same_but n T ?T1" by (rule category_step_same)
  show ?thesis
  proof (cases "datetime_step pd n ?T1")
    case (Inl e)
    then show ?thesis using 1 by (simp add: cast_label_def)
  next
    case (Inr T2)
    note 2 = same_but_trans [OF 1 datetime_step_same [OF Inr]]
    show ?thesis
    proof (cases "timedelta_step pd n T2")
      case (Inl e)
      then show ?thesis using 2 Inr by (simp add: cast_label_def)
    next
      case T3: (Inr T3)
      note 3 = same_but_trans [OF 2 timedelta_step_same [OF T3]]
      show ?thesis
        using same_but_trans [OF 3 int_step_same [of n T3 pd]] Inr T3
        by (simp add: cast_label_def)
    qed
  qed
qed

lemma cast_label_names [simp]: "column_names (fst (cast_label pd n T)) = column_names T"
  using cast_label_same [of n T pd] by (simp add: same_but_def)

lemma cast_label_nrows [simp]: "nrows (fst (cast_label pd n T)) = nrows T"
  using cast_label_same [of n T pd] by (simp add: same_but_def)

lemma cast_label_other: "m \<noteq> n \<Longrightarrow> getitem (fst (cast_label pd n T)) m = getitem T m"
  using cast_label_same [of n T pd] by (simp add: same_but_def)

subsection \<open>The loop\<close>

lemma loop_names [simp]: "column_names (fst (type_casting_loop pd ns T)) = column_names T"
proof (induction ns arbitrary: T)
  case Nil
  then show ?case by simp
next
  case (Cons n ns)
  show ?case
  proof (cases "cast_label pd n T")
    case (Pair T' r)
    then have "column_names T' = column_names T"
      using cast_label_names [of pd n T] by simp
    with Pair Cons.IH [of T'] show ?thesis
      by (cases r) simp_all
  qed
qed

lemma loop_nrows [simp]: "nrows (fst (type_casting_loop pd ns T)) = nrows T"
proof (induction ns arbitrary: T)
  case Nil
  then show ?case by simp
next
  case (Cons n ns)
  show ?case
  proof (cases "cast_label pd n T")
    case (Pair T' r)
    then have "nrows T' = nrows T"
      using cast_label_nrows [of pd n T] by simp
    with Pair Cons.IH [of T'] show ?thesis
      by (cases r) simp_all
  qed
qed

lemma loop_other: "m \<notin> set ns \<Longrightarrow> getitem (fst (type_casting_loop pd ns T)) m = getitem T m"
proof (induction ns arbitrary: T)
  case Nil
  then show ?case by simp
next
  case (Cons n ns)
  show ?case
  proof (cases "cast_label pd n T")
    case (Pair T' r)
    then have "getitem T' m = getitem T m"
      using cast_label_other [of m n pd T] Cons.prems by simp
    with Pair Cons.IH [of T'] Cons.prems show ?thesis
      by (cases r) simp_all
  qed
qed

lemma loop_append:
  "type_casting_loop pd (xs @ ys) T =
     (case type_casting_loop pd xs T of
        (T', Some e) \<Rightarrow> (T', Some e)
      | (T', None) \<Rightarrow> type_casting_loop pd ys T')"
  by (induction xs arbitrary: T) (auto split: prod.splits option.splits)

lemma loop_visit_once:
  assumes "m \<notin> set pre" "m \<notin> set post"
    and "type_casting_loop pd (pre @ m # post) T = (T', None)"
  shows "\<exists>T1 T2. getitem T1 m = getitem T m \<and> cast_label pd m T1 = (T2, None)
           \<and> getitem T' m = getitem T2 m"
proof -
  obtain T1 r1 where l1: "type_casting_loop pd pre T = (T1, r1)" by (cases "type_casting_loop pd pre T")
  obtain T2 r2 where c: "cast_label pd m T1 = (T2, r2)" by (cases "cast_label pd m T1")
  from assms(3) l1 have r1: "r1 = None"
    by (cases r1) (simp_all add: loop_append)
  from assms(3) l1 c r1 have r2: "r2 = None"
    by (cases r2) (simp_all add: loop_append)
  from assms(3) l1 c r1 r2 have l2: "type_casting_loop pd post T2 = (T', None)"
    by (simp add: loop_append)
  have "getitem T1 m = getitem T m"
    using loop_other [OF assms(1), of pd T] l1 by simp
  moreover have "getitem T' m = getitem T2 m"
    using loop_other [OF assms(2), of pd T2] l2 by simp
  ultimately show ?thesis using c r2 by blast
qed

lemma single_occurrence:
  assumes "getitem T m = [s]"
  shows "\<exists>pre post. column_names T = pre @ m # post \<and> m \<notin> set pre \<and> m \<notin> set post"
proof -
  have f: "filter (\<lambda>n. n = m) (column_names T) = [m]"
    using getitem_names [of m T] assms by simp
  then have "m \<in> set (filter (\<lambda>n. n = m) (column_names T))"
    by simp
  then have "m \<in> set (column_names T)"
    by simp
  from split_list_first [OF this] obtain pre post
    where s: "column_names T = pre @ m # post" and p: "m \<notin> set pre" by blast
  have "filter (\<lambda>n. n = m) pre = []"
    using p by (induction pre) auto
  with f s have "filter (\<lambda>n. n = m) post = []" by simp
  then have "m \<notin> set post"
    by (auto simp: filter_empty_conv)
  with s p show ?thesis by blast
qed

subsection \<open>Columns of one label in a text table\<close>

lemma getitem_replace:
  "getitem (replace d t) m =
     map (\<lambda>c. case map_of d m of Some mp \<Rightarrow> replace_values mp c | None \<Rightarrow> c) (getitem t m)"
  using select_map_columns [of m "\<lambda>n c. case map_of d n of Some mp \<Rightarrow> replace_values mp c | None \<Rightarrow> c" "columns t"]
  by (simp add: getitem_def replace_def)

lemma nrows_replace [simp]: "nrows (replace d t) = nrows t"
  by (simp add: replace_def)

lemma column_names_replace [simp]: "column_names (replace d t) = column_names t"
  using names_map_columns [of "\<lambda>n c. case map_of d n of Some mp \<Rightarrow> replace_values mp c | None \<Rightarrow> c" "columns t"]
  by (simp add: column_names_def replace_def)

lemma getitem_absent: "\<not> has_column t m \<Longrightarrow> getitem t m = []"
  by (force simp: getitem_def has_column_def column_names_def filter_empty_conv)

lemma getitem_append:
  "getitem (t\<lparr>columns := columns t @ cs\<rparr>) m = getitem t m @ map snd (filter (\<lambda>(n, s). n = m) cs)"
  by (simp add: getitem_def)

lemma nrows_rename [simp]: "nrows (rename a b t) = nrows t"
  by (simp add: rename_def)

lemma nrows_fix_typos [simp]: "nrows (fix_typos t) = nrows t"
  by (simp add: fix_typos_def Let_def)

lemma those_map_Some:
  "those (map f ys) = Some zs \<Longrightarrow> length zs = length ys \<and> (\<forall>i < length ys. f (ys ! i) = Some (zs ! i))"
proof (induction ys arbitrary: zs)
  case Nil
  then show ?case by simp
next
  case (Cons y ys)
  then obtain z zs' where z: "f y = Some z" and r: "those (map f ys) = Some zs'" and zs: "zs = z # zs'"
    by (auto split: option.splits)
  from Cons.IH [OF r] z zs show ?case
    by (auto simp: nth_Cons split: nat.splits)
qed

subsection \<open>The labels User and Duration\<close>

lemma cast_label_User: "cast_label pd ''User'' T = (map_label ''User'' astype_category T, None)"
  by (simp add: cast_label_def category_step_def datetime_step_def timedelta_step_def int_step_def
      category_types_def datetime_types_def timedelta_types_def int_types_def)

lemma cast_label_Duration:
  assumes "getitem T ''Duration'' = [Object ys]"
  shows "cast_label pd ''Duration'' T =
     (case those (map (to_timedelta pd) ys) of
        None \<Rightarrow> (map_label ''Duration'' astype_category T, Some MalformedDuration)
      | Some tds \<Rightarrow>
          (map_label ''Duration'' (\<lambda>_. Float64 (map minutes tds))
             (map_label ''Duration'' astype_category T), None))"
proof -
  have g: "getitem (map_label ''Duration'' astype_category T) ''Duration'' = [Category (Object ys)]"
    using assms by (simp add: getitem_map_label)
  show ?thesis
    by (simp add: cast_label_def category_step_def datetime_step_def timedelta_step_def int_step_def
        category_types_def datetime_types_def timedelta_types_def int_types_def g
        split: option.splits)
qed

lemma bit_length_300000000000: "bit_length 300000000000 = 39"
  by (simp add: bit_length.simps)

lemma bit_length_60000000000: "bit_length 60000000000 = 36"
  by (simp add: bit_length.simps)

lemma minutes_five: "minutes (Some 300000000000) = Some 5"
  by (simp add: minutes_def minutes_float64_def to_float64_def float64_divide_def rint_def
      round_half_even_div_def bit_length_300000000000 bit_length_60000000000 Let_def)

text \<open>
  Above \<open>2 ^ 53\<close> nanoseconds the conversion to double loses the last bit: the exact
  quotient here is just above 288000.5, the double quotient is 288000.5 and rounds to
  the even 288000.
\<close>

lemma minutes_above_2_53: "minutes (Some 17280030000000001) = Some 288000"
  by (simp add: minutes_def minutes_float64_def to_float64_def float64_divide_def rint_def
      round_half_even_div_def bit_length.simps Let_def)

lemma type_casting_Duration:
  assumes t: "getitem t ''Duration'' = [ys]"
    and run: "type_casting pd t = (T, None)"
  shows "\<exists>tds. those (map (to_timedelta pd) ys) = Some tds
           \<and> getitem T ''Duration'' = [Float64 (map minutes tds)]"
proof -
  have g0: "getitem (as_object t) ''Duration'' = [Object ys]"
    using t by (simp add: getitem_as_object)
  from single_occurrence [OF g0] obtain pre post
    where n: "column_names t = pre @ ''Duration'' # post"
      and p: "''Duration'' \<notin> set pre" "''Duration'' \<notin> set post" by auto
  from run n have "type_casting_loop pd (pre @ ''Duration'' # post) (as_object t) = (T, None)"
    by (simp add: type_casting_def)
  from loop_visit_once [OF p this] obtain T1 T2
    where g1: "getitem T1 ''Duration'' = [Object ys]"
      and c: "cast_label pd ''Duration'' T1 = (T2, None)"
      and g2: "getitem T ''Duration'' = getitem T2 ''Duration''"
    using g0 by auto
  from c cast_label_Duration [OF g1, of pd] obtain tds
    where th: "those (map (to_timedelta pd) ys) = Some tds"
      and T2: "T2 = map_label ''Duration'' (\<lambda>_. Float64 (map minutes tds))
                      (map_label ''Duration'' astype_category T1)"
    by (auto split: option.splits)
  have "getitem T2 ''Duration'' = [Float64 (map minutes tds)]"
    using g1 by (simp add: T2 getitem_map_label)
  with th g2 show ?thesis by simp
qed

lemma getitem_olt_Duration:
  "getitem (odour_literals_to_numbers t) ''Duration''
     = map (replace_values duration_mapping) (getitem t ''Duration'')"
  by (simp add: odour_literals_to_numbers_def getitem_replace intensity_and_annoy_mapping_def)

text \<open>
  C3, as the code has it. Let the one \<open>Duration\<close> column of a table hold \<open>Punctual odor\<close>
  in some row, and let the library read \<open>00:05:00\<close> as five minutes. Then
  \<^verbatim>\<open>odour_literals_to_numbers\<close> writes \<open>00:05:00\<close> in that row, and whenever the
  \<^verbatim>\<open>type_casting\<close> that follows runs to its end, the \<open>Duration\<close> column is a float column
  of whole minutes, not a categorical one and not an integer one, with 5.0 in that row.
  On the table that has this one cell, \<^verbatim>\<open>type_casting\<close> does run to its end.
\<close>

theorem punctual_odor_duration:
  assumes pd: "to_timedelta pd ''00:05:00'' = Some (Some 300000000000)"
    and t: "getitem t ''Duration'' = [xs]"
    and i: "i < length xs" "xs ! i = ''Punctual odor''"
  shows "(\<exists>ys. getitem (odour_literals_to_numbers t) ''Duration'' = [ys]
           \<and> length ys = length xs \<and> ys ! i = ''00:05:00''
           \<and> (\<forall>T. type_casting pd (odour_literals_to_numbers t) = (T, None) \<longrightarrow>
                 (\<exists>fs. getitem T ''Duration'' = [Float64 fs]
                    \<and> length fs = length xs \<and> fs ! i = Some 5)))
         \<and> type_casting pd
              (odour_literals_to_numbers \<lparr>nrows = 1, columns = [(''Duration'', [''Punctual odor''])]\<rparr>)
            = (\<lparr>nrows = 1, columns = [(''Duration'', Float64 [Some 5])]\<rparr>, None)"
proof -
  have example: "type_casting pd
              (odour_literals_to_numbers \<lparr>nrows = 1, columns = [(''Duration'', [''Punctual odor''])]\<rparr>)
            = (\<lparr>nrows = 1, columns = [(''Duration'', Float64 [Some 5])]\<rparr>, None)"
    using pd
    by (simp add: getitem_def odour_literals_to_numbers_def replace_def
      replace_values_def intensity_and_annoy_mapping_def duration_mapping_def
      type_casting_def column_names_def as_object_def cast_label_def category_step_def
      datetime_step_def timedelta_step_def int_step_def map_label_def
      category_types_def datetime_types_def timedelta_types_def int_types_def
      minutes_five)
  let ?ys = "replace_values duration_mapping xs"
  have g: "getitem (odour_literals_to_numbers t) ''Duration'' = [?ys]"
    using t by (simp add: getitem_olt_Duration)
  have l: "length ?ys = length xs"
    by (simp add: replace_values_def)
  have c: "?ys ! i = ''00:05:00''"
    using i by (simp add: replace_values_def duration_mapping_def)
  have "\<exists>fs. getitem T ''Duration'' = [Float64 fs] \<and> length fs = length xs \<and> fs ! i = Some 5"
    if run: "type_casting pd (odour_literals_to_numbers t) = (T, None)" for T
  proof -
    from type_casting_Duration [OF g run] obtain tds
      where th: "those (map (to_timedelta pd) ?ys) = Some tds"
        and gT: "getitem T ''Duration'' = [Float64 (map minutes tds)]" by blast
    from those_map_Some [OF th] l i(1) have len: "length tds = length xs"
      and "to_timedelta pd (?ys ! i) = Some (tds ! i)" by auto
    with c pd have "tds ! i = Some 300000000000" by simp
    then have "map minutes tds ! i = Some 5"
      using len i(1) by (simp add: minutes_five)
    with gT len show ?thesis by simp
  qed
  with g l c example show ?thesis by blast
qed

theorem punctual_odor_duration_witness:
  "getitem (odour_literals_to_numbers \<lparr>nrows = 1, columns = [(''Duration'', [''Punctual odor''])]\<rparr>) ''Duration''
     = [[''00:05:00'']]
   \<and> type_casting example_pandas
        (odour_literals_to_numbers \<lparr>nrows = 1, columns = [(''Duration'', [''Punctual odor''])]\<rparr>)
     = (\<lparr>nrows = 1, columns = [(''Duration'', Float64 [Some 5])]\<rparr>, None)
   \<and> getitem \<lparr>nrows = 1, columns = [(''Duration'', Float64 [Some 5])]\<rparr> ''Duration'' = [Float64 [Some 5]]"
  using punctual_odor_duration [of example_pandas
      "\<lparr>nrows = 1, columns = [(''Duration'', [''Punctual odor''])]\<rparr>" "[''Punctual odor'']" 0]
  by (simp add: example_pandas_def getitem_def odour_literals_to_numbers_def replace_def
      replace_values_def intensity_and_annoy_mapping_def duration_mapping_def
      type_casting_def column_names_def as_object_def cast_label_def category_step_def
      datetime_step_def timedelta_step_def int_step_def map_label_def
      category_types_def datetime_types_def timedelta_types_def int_types_def
      minutes_five)

text \<open>
  The claim C3 as it was stated fails twice. \<^verbatim>\<open>type_casting\<close> need not come to its end: with
  a second \<open>Duration\<close> cell that is no duration, \<^verbatim>\<open>pd.to_timedelta\<close> raises and the column
  is left categorical, the first cell still the text \<open>00:05:00\<close>. And where it does come to
  its end the column is a float column (the cell is 5.0), never an integer column.
\<close>

theorem punctual_odor_not_stored_as_integer:
  "type_casting example_pandas
     (odour_literals_to_numbers
        \<lparr>nrows = 2, columns = [(''Duration'', [''Punctual odor'', ''Punctual odor ''])]\<rparr>)
     = (\<lparr>nrows = 2, columns = [(''Duration'', Category (Object [''00:05:00'', ''Punctual odor '']))]\<rparr>,
        Some MalformedDuration)
   \<and> type_casting example_pandas
       (odour_literals_to_numbers \<lparr>nrows = 1, columns = [(''Duration'', [''Punctual odor''])]\<rparr>)
     = (\<lparr>nrows = 1, columns = [(''Duration'', Float64 [Some 5])]\<rparr>, None)
   \<and> Float64 [Some 5] \<noteq> Int64 [5]"
  by (simp add: example_pandas_def odour_literals_to_numbers_def replace_def
      replace_values_def intensity_and_annoy_mapping_def duration_mapping_def
      type_casting_def column_names_def as_object_def cast_label_def category_step_def
      datetime_step_def timedelta_step_def int_step_def map_label_def getitem_def
      category_types_def datetime_types_def timedelta_types_def int_types_def
      minutes_five)

subsection \<open>The Observation profile and the User column\<close>

lemma has_column_fix_typos_User: "has_column (fix_typos t) ''User'' = has_column t ''User''"
  by (simp add: fix_typos_def Let_def has_column_rename)

lemma getitem_fix_userids:
  "\<not> has_column t ''User'' \<Longrightarrow> getitem (fix_userids t) ''User'' = [replicate (nrows t) '''']"
  by (simp add: fix_userids_def setitem_scalar_absent getitem_append getitem_absent)

lemma nrows_fix_userids [simp]: "nrows (fix_userids t) = nrows t"
  by (simp add: fix_userids_def)

lemma getitem_olt_User:
  "getitem (odour_literals_to_numbers t) ''User'' = getitem t ''User''"
  by (simp add: odour_literals_to_numbers_def getitem_replace intensity_and_annoy_mapping_def)

lemma nrows_olt [simp]: "nrows (odour_literals_to_numbers t) = nrows t"
  by (simp add: odour_literals_to_numbers_def)

lemma add_fields_Inr:
  "add_fields fs t = Inr t' \<Longrightarrow> m \<notin> set fs \<Longrightarrow> getitem t' m = getitem t m \<and> nrows t' = nrows t"
proof (induction fs arbitrary: t)
  case Nil
  then show ?case by simp
next
  case (Cons f fs)
  from Cons.prems have nf: "\<not> has_column t f" and r: "add_fields fs (setitem_scalar t f '''') = Inr t'"
    by (auto split: if_splits)
  from Cons.IH [OF r] Cons.prems(2)
  have "getitem t' m = getitem (setitem_scalar t f '''') m" and "nrows t' = nrows t" by simp_all
  moreover have "getitem (setitem_scalar t f '''') m = getitem t m"
    using nf Cons.prems(2) by (auto simp: setitem_scalar_absent getitem_append)
  ultimately show ?case by simp
qed

lemma type_casting_User:
  assumes t: "getitem t ''User'' = [xs]"
    and run: "type_casting pd t = (T, None)"
  shows "getitem T ''User'' = [Category (Object xs)] \<and> nrows T = nrows t"
proof -
  have g0: "getitem (as_object t) ''User'' = [Object xs]"
    using t by (simp add: getitem_as_object)
  from single_occurrence [OF g0] obtain pre post
    where n: "column_names t = pre @ ''User'' # post"
      and p: "''User'' \<notin> set pre" "''User'' \<notin> set post" by auto
  from run n have "type_casting_loop pd (pre @ ''User'' # post) (as_object t) = (T, None)"
    by (simp add: type_casting_def)
  from loop_visit_once [OF p this] obtain T1 T2
    where g1: "getitem T1 ''User'' = [Object xs]"
      and c: "cast_label pd ''User'' T1 = (T2, None)"
      and g2: "getitem T ''User'' = getitem T2 ''User''"
    using g0 by auto
  from c have "T2 = map_label ''User'' astype_category T1"
    by (simp add: cast_label_User)
  then have "getitem T2 ''User'' = [Category (Object xs)]"
    using g1 by (simp add: getitem_map_label)
  moreover have "nrows T = nrows t"
  proof -
    from run have "T = fst (type_casting pd t)" by simp
    then show ?thesis by (simp add: type_casting_def)
  qed
  ultimately show ?thesis using g2 by simp
qed

text \<open>
  C9, as the code has it. On a table without a \<open>User\<close> column, whenever the provider
  runs the five filters of the Observation profile to the end, the frame then has exactly
  one \<open>User\<close> column, it is categorical, and its cells are the empty text, one for each
  row of the table.
\<close>

theorem observation_profile_user_column:
  assumes "\<not> has_column t ''User''"
    and "OCFilterProvider pd t observation_filters = Constructed fr"
  shows "\<exists>T. fr = TypedFrame T \<and> nrows T = nrows t
           \<and> getitem T ''User'' = [Category (Object (replicate (nrows t) ''''))]"
proof -
  let ?t3 = "odour_literals_to_numbers (fix_userids (fix_typos t))"
  have g3: "getitem ?t3 ''User'' = [replicate (nrows t) '''']"
    using assms(1) by (simp add: getitem_olt_User getitem_fix_userids has_column_fix_typos_User)
  have n3: "nrows ?t3 = nrows t" by simp
  have sub: "set observation_filters \<subseteq> AVAILABLE"
    by (simp add: observation_filters_def AVAILABLE_def)
  obtain t4 where a: "add_analyst_fields ?t3 = Inr t4"
    using assms(2) sub
    by (cases "add_analyst_fields ?t3")
       (auto simp: OCFilterProvider_def observation_filters_def call_def)
  have g4: "getitem t4 ''User'' = [replicate (nrows t) '''']" and n4: "nrows t4 = nrows t"
    using add_fields_Inr [of analyst_fields ?t3 t4 "''User''"] a g3 n3
    by (simp_all add: add_analyst_fields_def analyst_fields_def)
  obtain T r where tc: "type_casting pd t4 = (T, r)" by (cases "type_casting pd t4")
  have r: "r = None" and fr: "fr = TypedFrame T"
    using assms(2) sub a tc
    by (cases r; simp add: OCFilterProvider_def observation_filters_def call_def)+
  from type_casting_User [OF g4] tc r n4 fr show ?thesis by simp
qed

theorem observation_profile_user_column_witness:
  "\<not> has_column \<lparr>nrows = 2, columns = [(''Type'', [''Waste'', ''Urban'']), (''Intentity'', [''Weak'', ''''])]\<rparr> ''User''
   \<and> OCFilterProvider example_pandas
        \<lparr>nrows = 2, columns = [(''Type'', [''Waste'', ''Urban'']), (''Intentity'', [''Weak'', ''''])]\<rparr>
        observation_filters
      = Constructed (TypedFrame \<lparr>nrows = 2, columns =
          [(''Type'', Category (Object [''Waste'', ''Urban''])),
           (''Intensity'', Int64 [2, 0]),
           (''User'', Category (Object ['''', ''''])),
           (''Typeoverride'', Object ['''', '''']),
           (''Subtypeoverride'', Object ['''', '''']),
           (''Intensityoverride'', Category (Object ['''', ''''])),
           (''Annoyoverride'', Category (Object ['''', ''''])),
           (''Analystcomments'', Object ['''', ''''])]\<rparr>)"
  using observation_profile_user_column [of
      "\<lparr>nrows = 2, columns = [(''Type'', [''Waste'', ''Urban'']), (''Intentity'', [''Weak'', ''''])]\<rparr>"
      example_pandas]
  by (simp add: example_pandas_def OCFilterProvider_def observation_filters_def AVAILABLE_def call_def
      fix_typos_def fix_userids_def has_column_def column_names_def rename_def setitem_scalar_def
      getitem_def odour_literals_to_numbers_def replace_def
      replace_values_def intensity_and_annoy_mapping_def intensity_mapping_def
      add_analyst_fields_def analyst_fields_def
      type_casting_def as_object_def cast_label_def category_step_def
      datetime_step_def timedelta_step_def int_step_def map_label_def
      category_types_def datetime_types_def timedelta_types_def int_types_def numeral_2_eq_2)

text \<open>
  The claim C9 as it was stated fails: the run does not always come to its end. A table
  whose only column is \<open>Analystcomments\<close> has no \<open>User\<close> column, the run raises
  SchemaConflict in the fourth filter, and the \<open>User\<close> column it leaves is plain text.
\<close>

theorem observation_profile_can_fail:
  "\<not> has_column \<lparr>nrows = 1, columns = [(''Analystcomments'', [''seen''])]\<rparr> ''User''
   \<and> OCFilterProvider example_pandas \<lparr>nrows = 1, columns = [(''Analystcomments'', [''seen''])]\<rparr>
        observation_filters
      = Failed SchemaConflict (TextFrame \<lparr>nrows = 1, columns =
          [(''Analystcomments'', [''seen'']), (''User'', ['''']), (''Typeoverride'', ['''']),
           (''Subtypeoverride'', ['''']), (''Intensityoverride'', ['''']), (''Annoyoverride'', [''''])]\<rparr>)"
  by (simp add: OCFilterProvider_def observation_filters_def AVAILABLE_def call_def
      fix_typos_def fix_userids_def has_column_def column_names_def rename_def setitem_scalar_def
      odour_literals_to_numbers_def replace_def
      replace_values_def intensity_and_annoy_mapping_def
      add_analyst_fields_def analyst_fields_def)

subsection \<open>Unique labels\<close>

lemma distinct_rename:
  assumes "distinct (column_names t)" "\<not> (has_column t a \<and> has_column t b)"
  shows "distinct (column_names (rename a b t))"
proof (cases "has_column t a")
  case False
  then show ?thesis using assms(1) by (simp add: rename_absent)
next
  case True
  with assms(2) have "b \<notin> set (column_names t)" by (simp add: has_column_def)
  then have "inj_on (\<lambda>n. if n = a then b else n) (set (column_names t))"
    by (auto simp: inj_on_def)
  with assms(1) show ?thesis
    by (simp add: column_names_rename distinct_map)
qed

lemma distinct_fix_typos:
  assumes "distinct (column_names t)"
    and "\<not> (has_column t ''Intentity'' \<and> has_column t ''Intensity'')"
    and "\<not> (has_column t ''day'' \<and> has_column t ''Day'')"
    and "\<not> (has_column t ''time'' \<and> has_column t ''Time'')"
  shows "distinct (column_names (fix_typos t))"
proof -
  define t1 where "t1 = (if has_column t ''Intentity'' then rename ''Intentity'' ''Intensity'' t else t)"
  define t2 where "t2 = (if has_column t1 ''day'' then rename ''day'' ''Day'' t1 else t1)"
  have f: "fix_typos t = (if has_column t2 ''time'' then rename ''time'' ''Time'' t2 else t2)"
    by (simp add: fix_typos_def t1_def t2_def Let_def)
  have d1: "distinct (column_names t1)"
    using assms(1,2) by (simp add: t1_def distinct_rename)
  have h1: "has_column t1 x = has_column t x" if "x \<in> {''day'', ''Day'', ''time'', ''Time''}" for x
    using that by (auto simp: t1_def has_column_rename)
  have d2: "distinct (column_names t2)"
    using d1 assms(3) h1 by (simp add: t2_def distinct_rename)
  have h2: "has_column t2 x = has_column t x" if "x \<in> {''time'', ''Time''}" for x
    using that h1 by (auto simp: t2_def has_column_rename)
  show ?thesis
    using d2 assms(4) h2 by (simp add: f distinct_rename)
qed

lemma distinct_fix_userids: "distinct (column_names t) \<Longrightarrow> distinct (column_names (fix_userids t))"
  by (simp add: fix_userids_def setitem_scalar_absent) (simp add: column_names_def has_column_def)

lemma column_names_olt [simp]: "column_names (odour_literals_to_numbers t) = column_names t"
  by (simp add: odour_literals_to_numbers_def)

lemma distinct_add_fields:
  "distinct (column_names t) \<Longrightarrow>
   (case add_fields fs t of
      Inl (e, t') \<Rightarrow> distinct (column_names t')
    | Inr t' \<Rightarrow> distinct (column_names t'))"
proof (induction fs arbitrary: t)
  case Nil
  then show ?case by simp
next
  case (Cons f fs)
  show ?case
  proof (cases "has_column t f")
    case True
    with Cons.prems show ?thesis by simp
  next
    case False
    then have "distinct (column_names (setitem_scalar t f ''''))"
      using Cons.prems by (simp add: setitem_scalar_absent) (simp add: column_names_def has_column_def)
    from Cons.IH [OF this] False show ?thesis by simp
  qed
qed

lemma column_names_type_casting [simp]: "column_names (fst (type_casting pd t)) = column_names t"
  by (simp add: type_casting_def)

text \<open>
  C7, as the code has it. On a table with unique labels, \<^verbatim>\<open>fix_userids\<close>,
  \<^verbatim>\<open>odour_literals_to_numbers\<close>, \<^verbatim>\<open>add_analyst_fields\<close> (whether it returns or raises) and
  \<^verbatim>\<open>type_casting\<close> (whether it ends or raises) leave a frame with unique labels, and so
  does \<^verbatim>\<open>fix_typos\<close> when no misspelt label stands in the table beside the label it is
  renamed to.
\<close>

theorem filters_keep_labels_unique:
  assumes "distinct (column_names t)"
  shows "(\<not> (has_column t ''Intentity'' \<and> has_column t ''Intensity'')
            \<and> \<not> (has_column t ''day'' \<and> has_column t ''Day'')
            \<and> \<not> (has_column t ''time'' \<and> has_column t ''Time'')
          \<longrightarrow> distinct (column_names (fix_typos t)))
       \<and> distinct (column_names (fix_userids t))
       \<and> distinct (column_names (odour_literals_to_numbers t))
       \<and> (case add_analyst_fields t of
            Inl (e, t') \<Rightarrow> distinct (column_names t')
          | Inr t' \<Rightarrow> distinct (column_names t'))
       \<and> distinct (column_names (fst (type_casting pd t)))"
  using assms distinct_add_fields [OF assms, of analyst_fields]
  by (simp add: distinct_fix_typos distinct_fix_userids add_analyst_fields_def)

theorem filters_keep_labels_unique_witness:
  "distinct (column_names \<lparr>nrows = 1, columns = [(''Intentity'', [''Weak'']), (''day'', [''2020-01-01''])]\<rparr>)
   \<and> distinct (column_names (fix_typos
        \<lparr>nrows = 1, columns = [(''Intentity'', [''Weak'']), (''day'', [''2020-01-01''])]\<rparr>))
   \<and> column_names (fix_typos
        \<lparr>nrows = 1, columns = [(''Intentity'', [''Weak'']), (''day'', [''2020-01-01''])]\<rparr>)
      = [''Intensity'', ''Day'']"
  using filters_keep_labels_unique [of
      "\<lparr>nrows = 1, columns = [(''Intentity'', [''Weak'']), (''day'', [''2020-01-01''])]\<rparr>" example_pandas]
  by (simp add: fix_typos_def has_column_def column_names_def rename_def)

text \<open>
  The claim C7 as it was stated fails: on a well-formed table with the columns
  \<open>Intentity\<close> and \<open>Intensity\<close>, \<^verbatim>\<open>fix_typos\<close> gives two columns labelled \<open>Intensity\<close>.
\<close>

theorem fix_typos_duplicates_label:
  "wf_table \<lparr>nrows = 1, columns = [(''Intentity'', [''Weak'']), (''Intensity'', [''2''])]\<rparr>
   \<and> fix_typos \<lparr>nrows = 1, columns = [(''Intentity'', [''Weak'']), (''Intensity'', [''2''])]\<rparr>
      = \<lparr>nrows = 1, columns = [(''Intensity'', [''Weak'']), (''Intensity'', [''2''])]\<rparr>
   \<and> \<not> distinct (column_names
          (fix_typos \<lparr>nrows = 1, columns = [(''Intentity'', [''Weak'']), (''Intensity'', [''2''])]\<rparr>))"
  by (simp add: wf_table_def fix_typos_def has_column_def column_names_def rename_def)

subsection \<open>What a call returns\<close>

text \<open>No call changes the row count of the frame, whether it returns or raises.\<close>

lemma nrows_add_fields:
  "(case add_fields fs t of Inl (e, t') \<Rightarrow> nrows t' | Inr t' \<Rightarrow> nrows t') = nrows t"
proof (induction fs arbitrary: t)
  case Nil
  then show ?case by simp
next
  case (Cons f fs)
  from Cons [of "setitem_scalar t f ''''"] show ?case by simp
qed

lemma nrows_type_casting [simp]: "nrows (fst (type_casting pd t)) = nrows t"
  by (simp add: type_casting_def)

lemma call_keeps_row_count: "rows_after (call pd data_filter t) = nrows t"
proof -
  have a: "rows_after (case add_analyst_fields t of
             Inl (e, ocdata) \<Rightarrow> Raises e (TextFrame ocdata)
           | Inr ocdata \<Rightarrow> Returns_frame ocdata) = nrows t"
    using nrows_add_fields [of analyst_fields t]
    by (auto simp: add_analyst_fields_def split: sum.splits)
  have b: "rows_after (case type_casting pd t of
             (ocdata, Some e) \<Rightarrow> Raises e (TypedFrame ocdata)
           | (ocdata, None) \<Rightarrow> Returns_None ocdata) = nrows t"
    using nrows_type_casting [of pd t]
    by (cases "type_casting pd t") (auto split: option.splits)
  show ?thesis
    unfolding call_def using a b by simp
qed

text \<open>
  C1, what the code does where the claim fails. \<^verbatim>\<open>type_casting\<close> never returns the
  table: it has no \<^verbatim>\<open>return\<close> statement, so a call that raises nothing returns
  \<^verbatim>\<open>None\<close>, as on the table with one \<open>User\<close> cell, and a filter that runs after it is
  called on \<^verbatim>\<open>None\<close> and raises TypeError. The frame itself was cast in place.
\<close>

theorem type_casting_returns_None:
  "call pd ''type_casting'' t \<noteq> Returns_frame t'
   \<and> call pd ''type_casting'' \<lparr>nrows = 1, columns = [(''User'', [''u1''])]\<rparr>
      = Returns_None \<lparr>nrows = 1, columns = [(''User'', Category (Object [''u1'']))]\<rparr>
   \<and> run pd [''type_casting'', ''fix_typos''] \<lparr>nrows = 1, columns = [(''User'', [''u1''])]\<rparr>
      = Raises TypeError (TypedFrame \<lparr>nrows = 1, columns = [(''User'', Category (Object [''u1'']))]\<rparr>)"
proof -
  have "call pd ''type_casting'' t \<noteq> Returns_frame t'"
    by (cases "type_casting pd t") (auto simp: call_def split: option.splits)
  moreover have c: "call pd ''type_casting'' \<lparr>nrows = 1, columns = [(''User'', [''u1''])]\<rparr>
      = Returns_None \<lparr>nrows = 1, columns = [(''User'', Category (Object [''u1'']))]\<rparr>"
    by (simp add: call_def type_casting_def column_names_def as_object_def cast_label_User map_label_def)
  moreover have "run pd [''type_casting'', ''fix_typos''] \<lparr>nrows = 1, columns = [(''User'', [''u1''])]\<rparr>
      = Raises TypeError (TypedFrame \<lparr>nrows = 1, columns = [(''User'', Category (Object [''u1'']))]\<rparr>)"
    using c by (simp add: call_None_def)
  ultimately show ?thesis by simp
qed

theorem type_casting_returns_None_witness:
  "call example_pandas ''type_casting'' \<lparr>nrows = 1, columns = [(''User'', [''u1''])]\<rparr>
      = Returns_None \<lparr>nrows = 1, columns = [(''User'', Category (Object [''u1'']))]\<rparr>"
  using type_casting_returns_None [of example_pandas] by simp

subsection \<open>The exceptions of one call\<close>

text \<open>
  On a table with unique labels every exception that a registered filter raises is one
  of the error kinds the design names: SchemaConflict from \<^verbatim>\<open>add_analyst_fields\<close>, and
  from \<^verbatim>\<open>type_casting\<close> the refusal of a date, a duration or an integer.
\<close>

lemma cast_label_error_kind:
  assumes "getitem T n = [Object xs]" "cast_label pd n T = (T', Some e)"
  shows "defined_error_kind e"
proof -
  let ?T1 = "category_step n T"
  have g1: "getitem ?T1 n = [Object xs] \<or> getitem ?T1 n = [Category (Object xs)]"
    using assms(1) by (simp add: category_step_def getitem_map_label)
  show ?thesis
  proof (cases "n \<in> set datetime_types")
    case True
    then have n: "n = ''Day''" by (simp add: datetime_types_def)
    from g1 assms(2) show ?thesis
      by (auto simp: n cast_label_def datetime_step_def timedelta_step_def int_step_def
          datetime_types_def timedelta_types_def int_types_def
          split: sum.splits option.splits)
  next
    case False
    then have d: "datetime_step pd n ?T1 = Inr ?T1" by (simp add: datetime_step_def)
    show ?thesis
    proof (cases "n \<in> set timedelta_types")
      case True
      then have "n \<notin> set int_types" by (auto simp: timedelta_types_def int_types_def)
      with g1 assms(2) d True show ?thesis
        by (auto simp: cast_label_def timedelta_step_def int_step_def
            split: sum.splits option.splits)
    next
      case False
      then have t: "timedelta_step pd n ?T1 = Inr ?T1" by (simp add: timedelta_step_def)
      from g1 assms(2) d t show ?thesis
        by (auto simp: cast_label_def int_step_def Let_def
            split: if_splits sum.splits option.splits)
    qed
  qed
qed

lemma loop_error_kind:
  assumes "distinct ns" "\<forall>n \<in> set ns. \<exists>xs. getitem T n = [Object xs]"
    and "type_casting_loop pd ns T = (T', Some e)"
  shows "defined_error_kind e"
  using assms
proof (induction ns arbitrary: T)
  case Nil
  then show ?case by simp
next
  case (Cons n ns)
  obtain T1 r where c: "cast_label pd n T = (T1, r)" by (cases "cast_label pd n T")
  from Cons.prems(2) obtain xs where g: "getitem T n = [Object xs]" by auto
  show ?case
  proof (cases r)
    case (Some e')
    with c Cons.prems(3) have "e' = e" by simp
    with cast_label_error_kind [OF g] c Some show ?thesis by simp
  next
    case None
    with c Cons.prems(3) have l: "type_casting_loop pd ns T1 = (T', Some e)" by simp
    have "\<forall>m \<in> set ns. \<exists>xs. getitem T1 m = [Object xs]"
    proof
      fix m assume m: "m \<in> set ns"
      with Cons.prems(1) have "m \<noteq> n" by auto
      from cast_label_other [OF this, of pd T] c have "getitem T1 m = getitem T m" by simp
      with Cons.prems(2) m show "\<exists>xs. getitem T1 m = [Object xs]" by simp
    qed
    with Cons.IH [OF _ _ l] Cons.prems(1) show ?thesis by simp
  qed
qed

lemma select_distinct:
  "distinct (map fst cs) \<Longrightarrow> n \<in> set (map fst cs) \<Longrightarrow> \<exists>c. map snd (filter (\<lambda>(k, s). k = n) cs) = [c]"
proof (induction cs)
  case Nil
  then show ?case by simp
next
  case (Cons a cs)
  obtain k c where a: "a = (k, c)" by (cases a)
  show ?case
  proof (cases "k = n")
    case True
    with Cons.prems(1) a have "n \<notin> fst ` set cs" by simp
    then have "filter (\<lambda>(k, s). k = n) cs = []"
      by (force simp: filter_empty_conv)
    with True a show ?thesis by simp
  next
    case False
    with Cons a show ?thesis by simp
  qed
qed

lemma type_casting_error_kind:
  assumes "distinct (column_names t)" "type_casting pd t = (T, Some e)"
  shows "defined_error_kind e"
proof -
  have "\<forall>n \<in> set (column_names t). \<exists>xs. getitem (as_object t) n = [Object xs]"
  proof
    fix n assume "n \<in> set (column_names t)"
    with select_distinct [of "columns t" n] assms(1) obtain c where "getitem t n = [c]"
      by (auto simp: column_names_def getitem_def)
    then show "\<exists>xs. getitem (as_object t) n = [Object xs]"
      by (simp add: getitem_as_object)
  qed
  with loop_error_kind [OF assms(1), of "as_object t" pd T e] assms(2) show ?thesis
    by (simp add: type_casting_def)
qed

lemma call_error_kind:
  assumes "distinct (column_names t)" "data_filter \<in> AVAILABLE" "call pd data_filter t = Raises e fr"
  shows "defined_error_kind e"
proof -
  have a: "e = SchemaConflict"
    if "(case add_analyst_fields t of
           Inl (e, ocdata) \<Rightarrow> Raises e (TextFrame ocdata)
         | Inr ocdata \<Rightarrow> Returns_frame ocdata) = Raises e fr"
  proof -
    have "add_fields fs t = Inl (e', t') \<Longrightarrow> e' = SchemaConflict" for fs t e' t'
      by (induction fs arbitrary: t) (auto split: if_splits)
    with that show ?thesis
      by (auto simp: add_analyst_fields_def split: sum.splits)
  qed
  have b: "defined_error_kind e"
    if "(case type_casting pd t of
           (ocdata, Some e) \<Rightarrow> Raises e (TypedFrame ocdata)
         | (ocdata, None) \<Rightarrow> Returns_None ocdata) = Raises e fr"
    using that type_casting_error_kind [OF assms(1), of pd]
    by (cases "type_casting pd t") (auto split: option.splits)
  from assms(2,3) a b show ?thesis
    by (auto simp: AVAILABLE_def call_def split: if_splits)
qed

end
